theory Spec2Isabelle
  imports Main "HOL-Library.Sublist"
begin

section \<open>Python values\<close>

text \<open>
  The program handles the values that \<^verbatim>\<open>response.json()\<close> yields: \<^verbatim>\<open>None\<close>, booleans,
  integers, strings, lists and dictionaries. A dictionary is an association list in
  insertion order; a parsed dictionary has distinct keys. JSON numbers with a fraction
  are left out: every number the program reads is an identifier or a status code.
  \<open>JNull\<close> is Python's \<^verbatim>\<open>None\<close>, which is also what JSON \<^verbatim>\<open>null\<close> parses to.
\<close>

datatype json_value =
    JNull
  | JBool bool
  | JInt int
  | JStr string
  | JList "json_value list"
  | JObj "(string \<times> json_value) list"

datatype error = KeyError string | TypeError

text \<open>Truth value testing, as \<^verbatim>\<open>if x:\<close> and \<^verbatim>\<open>not x\<close> do it.\<close>

fun truthy :: "json_value \<Rightarrow> bool" where
  "truthy JNull = False"
| "truthy (JBool b) = b"
| "truthy (JInt n) = (n \<noteq> 0)"
| "truthy (JStr s) = (s \<noteq> [])"
| "truthy (JList xs) = (xs \<noteq> [])"
| "truthy (JObj kvs) = (kvs \<noteq> [])"

text \<open>
  \<^verbatim>\<open>x['key']\<close> with a string key: a dictionary without the key raises KeyError, and every
  other value raises TypeError (a list or a string wants an integer index, the rest
  cannot be subscripted).
\<close>

fun subscript :: "json_value \<Rightarrow> string \<Rightarrow> error + json_value" where
  "subscript (JObj kvs) k =
     (case map_of kvs k of None \<Rightarrow> Inl (KeyError k) | Some v \<Rightarrow> Inr v)"
| "subscript JNull k = Inl TypeError"
| "subscript (JBool b) k = Inl TypeError"
| "subscript (JInt n) k = Inl TypeError"
| "subscript (JStr s) k = Inl TypeError"
| "subscript (JList xs) k = Inl TypeError"

text \<open>
  \<^verbatim>\<open>for x in v\<close>: a list yields its elements, a dictionary its keys, a string its
  characters; \<^verbatim>\<open>None\<close>, a boolean and an integer raise TypeError before the first
  iteration.
\<close>

fun py_iter :: "json_value \<Rightarrow> error + json_value list" where
  "py_iter (JList xs) = Inr xs"
| "py_iter (JObj kvs) = Inr (map (\<lambda>kv. JStr (fst kv)) kvs)"
| "py_iter (JStr s) = Inr (map (\<lambda>c. JStr [c]) s)"
| "py_iter JNull = Inl TypeError"
| "py_iter (JBool b) = Inl TypeError"
| "py_iter (JInt n) = Inl TypeError"

subsection \<open>String conversion in f-strings\<close>

definition digit_char :: "nat \<Rightarrow> char" where
  "digit_char d = ''0123456789abcdef'' ! d"

fun str_nat :: "nat \<Rightarrow> string" where
  "str_nat n = (if n < 10 then [digit_char n] else str_nat (n div 10) @ [digit_char (n mod 10)])"

declare str_nat.simps [simp del]

definition str_int :: "int \<Rightarrow> string" where
  "str_int i = (if i < 0 then CHR ''-'' # str_nat (nat (- i)) else str_nat (nat i))"

text \<open>
  \<^verbatim>\<open>repr\<close> of a string: double quotes when the string holds a single quote and no double
  quote, single quotes otherwise; the quote and the backslash are escaped, tab, newline
  and carriage return are written as letters, the other control characters as
  \<^verbatim>\<open>\xNN\<close>. Characters are the code points below 256; of those above 127 the
  non-printable ones, U+0080 to U+00A0 and U+00AD, are written as \<^verbatim>\<open>\xNN\<close> too and the
  others are kept.
\<close>

definition repr_char :: "char \<Rightarrow> char \<Rightarrow> string" where
  "repr_char q c =
     (if c = q \<or> c = CHR 0x5C then [CHR 0x5C, c]
      else if c = CHR 0x09 then [CHR 0x5C, CHR ''t'']
      else if c = CHR 0x0A then [CHR 0x5C, CHR ''n'']
      else if c = CHR 0x0D then [CHR 0x5C, CHR ''r'']
      else if (of_char c :: nat) < 32 \<or> (of_char c :: nat) = 127
              \<or> (128 \<le> (of_char c :: nat) \<and> (of_char c :: nat) \<le> 160)
              \<or> (of_char c :: nat) = 173
        then [CHR 0x5C, CHR ''x'', digit_char (of_char c div 16), digit_char (of_char c mod 16)]
      else [c])"

definition repr_str :: "string \<Rightarrow> string" where
  "repr_str s =
     (let q = (if CHR 0x27 \<in> set s \<and> CHR 0x22 \<notin> set s then CHR 0x22 else CHR 0x27)
      in q # concat (map (repr_char q) s) @ [q])"

fun join :: "string \<Rightarrow> string list \<Rightarrow> string" where
  "join sep [] = []"
| "join sep [x] = x"
| "join sep (x # y # ys) = x @ sep @ join sep (y # ys)"

fun py_repr :: "json_value \<Rightarrow> string" where
  "py_repr JNull = ''None''"
| "py_repr (JBool b) = (if b then ''True'' else ''False'')"
| "py_repr (JInt n) = str_int n"
| "py_repr (JStr s) = repr_str s"
| "py_repr (JList xs) = ''['' @ join '', '' (map py_repr xs) @ '']''"
| "py_repr (JObj kvs) =
     ''{'' @ join '', '' (map (\<lambda>kv. repr_str (fst kv) @ '': '' @ py_repr (snd kv)) kvs) @ ''}''"

text \<open>\<^verbatim>\<open>str(x)\<close>, which \<^verbatim>\<open>f"{x}"\<close> uses: a string is itself, anything else its \<^verbatim>\<open>repr\<close>.\<close>

fun py_str :: "json_value \<Rightarrow> string" where
  "py_str (JStr s) = s"
| "py_str v = py_repr v"

text \<open>
  The access token and the two organization names are \<^verbatim>\<open>str\<close> or \<^verbatim>\<open>None\<close>
  (\<^verbatim>\<open>os.environ.get\<close>, and argparse for an option that was not given).
\<close>

fun str_opt :: "string option \<Rightarrow> string" where
  "str_opt None = ''None''"
| "str_opt (Some s) = s"

section \<open>The platform and the console\<close>

text \<open>
  A request is what the program hands to \<^verbatim>\<open>requests.get\<close>, \<^verbatim>\<open>requests.post\<close> or
  \<^verbatim>\<open>requests.put\<close>: the URL, the headers and, for a POST, the \<^verbatim>\<open>json=\<close> argument.
  Of a response the program reads \<^verbatim>\<open>status_code\<close> and \<^verbatim>\<open>json()\<close>. The platform answers
  every request with a status code and a JSON body, and its answer may depend on all the
  requests it has received before.

  A call that the HTTP library itself ends with an exception is not part of this model:
  a header value it refuses (a token with a line break), a connection that fails, a body
  that \<^verbatim>\<open>json()\<close> cannot parse. Every statement below about a status or a body is about a
  call that was answered, and none of them says that such exceptions cannot occur.
\<close>

datatype http_method = GET | POST | PUT

record request =
  verb :: http_method
  url :: string
  headers :: "(string \<times> string) list"
  body :: "json_value option"

record response =
  status_code :: int
  json :: json_value

type_synonym platform = "request list \<Rightarrow> request \<Rightarrow> response"

text \<open>The effects of a run: the requests sent and the lines printed, oldest first.\<close>

record world =
  sent :: "request list"
  stdout :: "string list"

type_synonym 'a result = "(error + 'a) \<times> world"

definition print :: "string \<Rightarrow> world \<Rightarrow> world" where
  "print line w = w\<lparr>stdout := stdout w @ [line]\<rparr>"

definition send :: "platform \<Rightarrow> request \<Rightarrow> world \<Rightarrow> response \<times> world" where
  "send srv rq w = (srv (sent w) rq, w\<lparr>sent := sent w @ [rq]\<rparr>)"

definition requests_get ::
  "platform \<Rightarrow> string \<Rightarrow> (string \<times> string) list \<Rightarrow> world \<Rightarrow> response \<times> world" where
  "requests_get srv u hs w = send srv \<lparr>verb = GET, url = u, headers = hs, body = None\<rparr> w"

definition requests_post ::
  "platform \<Rightarrow> string \<Rightarrow> json_value \<Rightarrow> (string \<times> string) list \<Rightarrow> world \<Rightarrow> response \<times> world" where
  "requests_post srv u j hs w = send srv \<lparr>verb = POST, url = u, headers = hs, body = Some j\<rparr> w"

definition requests_put ::
  "platform \<Rightarrow> string \<Rightarrow> (string \<times> string) list \<Rightarrow> world \<Rightarrow> response \<times> world" where
  "requests_put srv u hs w = send srv \<lparr>verb = PUT, url = u, headers = hs, body = None\<rparr> w"

section \<open>The API client functions\<close>

definition apiUrl :: string where
  "apiUrl = ''https://api.github.com''"

definition auth_headers :: "string option \<Rightarrow> (string \<times> string) list" where
  "auth_headers access_token = [(''Authorization'', ''Bearer '' @ str_opt access_token)]"

definition get_teams :: "platform \<Rightarrow> string option \<Rightarrow> string option \<Rightarrow> world \<Rightarrow> json_value result" where
  "get_teams srv source_org access_token w =
     (let u = apiUrl @ ''/orgs/'' @ str_opt source_org @ ''/teams'';
          hs = auth_headers access_token;
          (response, w1) = requests_get srv u hs w
      in if status_code response = 200 then (Inr (json response), w1)
         else (Inr JNull,
               print (''Failed to fetch teams from '' @ str_opt source_org
                      @ ''. Status code: '' @ str_int (status_code response)) w1))"

definition get_team_members :: "platform \<Rightarrow> json_value \<Rightarrow> string option \<Rightarrow> world \<Rightarrow> json_value result" where
  "get_team_members srv team_id access_token w =
     (let u = apiUrl @ ''/teams/'' @ py_str team_id @ ''/members'';
          hs = auth_headers access_token;
          (response, w1) = requests_get srv u hs w
      in if status_code response = 200 then (Inr (json response), w1)
         else (Inr JNull,
               print (''Failed to fetch members for team '' @ py_str team_id
                      @ ''. Status code: '' @ str_int (status_code response)) w1))"

text \<open>
  Both branches of \<open>create_team\<close> read \<^verbatim>\<open>team_data['name']\<close> for the message, after the
  POST was sent; the lookup raises when the payload has no such key.
\<close>

definition create_team ::
  "platform \<Rightarrow> string option \<Rightarrow> string option \<Rightarrow> json_value \<Rightarrow> world \<Rightarrow> json_value result" where
  "create_team srv destination_org access_token team_data w =
     (let u = apiUrl @ ''/orgs/'' @ str_opt destination_org @ ''/teams'';
          hs = auth_headers access_token;
          (response, w1) = requests_post srv u team_data hs w
      in if status_code response = 201 then
           (case subscript team_data ''name'' of
              Inl e \<Rightarrow> (Inl e, w1)
            | Inr name \<Rightarrow>
                (Inr (json response),
                 print (''Team - '' @ py_str name @ '' created successfully in ''
                        @ str_opt destination_org) w1))
         else
           (case subscript team_data ''name'' of
              Inl e \<Rightarrow> (Inl e, w1)
            | Inr name \<Rightarrow>
                (Inr JNull,
                 print (''Failed to create team '' @ py_str name @ '' in ''
                        @ str_opt destination_org @ ''. Status code: ''
                        @ str_int (status_code response)) w1)))"

text \<open>The \<^verbatim>\<open>for member in members\<close> loop of \<open>add_members_to_team\<close>, over the items left.\<close>

fun add_members_loop ::
  "platform \<Rightarrow> string \<Rightarrow> (string \<times> string) list \<Rightarrow> json_value \<Rightarrow> json_value list \<Rightarrow> world
   \<Rightarrow> unit result" where
  "add_members_loop srv u hs team_id [] w = (Inr (), w)"
| "add_members_loop srv u hs team_id (member # members) w =
     (case subscript member ''login'' of
        Inl e \<Rightarrow> (Inl e, w)
      | Inr username \<Rightarrow>
          (let (response, w1) = requests_put srv (u @ ''/'' @ py_str username) hs w;
               w2 = (if status_code response = 200
                     then print (''Member - '' @ py_str username
                                 @ '' added successfully to team '' @ py_str team_id) w1
                     else print (''Failed to add member '' @ py_str username @ '' to team ''
                                 @ py_str team_id @ ''. Status code: ''
                                 @ str_int (status_code response)) w1)
           in add_members_loop srv u hs team_id members w2))"

definition add_members_to_team ::
  "platform \<Rightarrow> json_value \<Rightarrow> string option \<Rightarrow> json_value \<Rightarrow> world \<Rightarrow> unit result" where
  "add_members_to_team srv team_id access_token members w =
     (if \<not> truthy team_id
      then (Inr (), print ''Team ID is not valid. Skipping adding members.'' w)
      else
        (let u = apiUrl @ ''/teams/'' @ py_str team_id @ ''/memberships'';
             hs = auth_headers access_token
         in case py_iter members of
              Inl e \<Rightarrow> (Inl e, w)
            | Inr ms \<Rightarrow> add_members_loop srv u hs team_id ms w))"

section \<open>The orchestrator\<close>

text \<open>One iteration of the \<^verbatim>\<open>for team in teams\<close> loop of \<open>transfer_teams\<close>.\<close>

definition transfer_team ::
  "platform \<Rightarrow> string option \<Rightarrow> string option \<Rightarrow> json_value \<Rightarrow> world \<Rightarrow> unit result" where
  "transfer_team srv destination_org access_token team w =
     (case create_team srv destination_org access_token team w of
        (Inl e, w1) \<Rightarrow> (Inl e, w1)
      | (Inr new_team_response, w1) \<Rightarrow>
          if truthy new_team_response then
            (case subscript new_team_response ''id'' of
               Inl e \<Rightarrow> (Inl e, w1)
             | Inr new_team_id \<Rightarrow>
                 (case subscript team ''id'' of
                    Inl e \<Rightarrow> (Inl e, w1)
                  | Inr team_id \<Rightarrow>
                      (case get_team_members srv team_id access_token w1 of
                         (Inl e, w2) \<Rightarrow> (Inl e, w2)
                       | (Inr team_members, w2) \<Rightarrow>
                           if truthy team_members
                           then add_members_to_team srv new_team_id access_token team_members w2
                           else (Inr (), w2))))
          else (Inr (), w1))"

fun transfer_loop ::
  "platform \<Rightarrow> string option \<Rightarrow> string option \<Rightarrow> json_value list \<Rightarrow> world \<Rightarrow> unit result" where
  "transfer_loop srv destination_org access_token [] w = (Inr (), w)"
| "transfer_loop srv destination_org access_token (team # teams) w =
     (case transfer_team srv destination_org access_token team w of
        (Inl e, w1) \<Rightarrow> (Inl e, w1)
      | (Inr u, w1) \<Rightarrow> transfer_loop srv destination_org access_token teams w1)"

definition transfer_teams ::
  "platform \<Rightarrow> string option \<Rightarrow> string option \<Rightarrow> string option \<Rightarrow> world \<Rightarrow> unit result" where
  "transfer_teams srv source_org destination_org access_token w =
     (case get_teams srv source_org access_token w of
        (Inl e, w1) \<Rightarrow> (Inl e, w1)
      | (Inr teams, w1) \<Rightarrow>
          if truthy teams then
            (case py_iter teams of
               Inl e \<Rightarrow> (Inl e, w1)
             | Inr ts \<Rightarrow> transfer_loop srv destination_org access_token ts w1)
          else (Inr (), w1))"

text \<open>
  The module's top level, given the value of \<^verbatim>\<open>GITHUB_ACCESS_TOKEN\<close> and the two parsed
  command-line options: the warning for a missing or empty token, then the transfer.
\<close>

definition main ::
  "platform \<Rightarrow> string option \<Rightarrow> string option \<Rightarrow> string option \<Rightarrow> world \<Rightarrow> unit result" where
  "main srv access_token source_organization destination_organization w =
     (let w1 = (if access_token = None \<or> access_token = Some []
                then print (''Error: GitHub access token not found. ''
                            @ ''Please set GITHUB_ACCESS_TOKEN environmental variable.'') w
                else w)
      in transfer_teams srv source_organization destination_organization access_token w1)"

section \<open>The requests of each operation\<close>

text \<open>
  The four requests of the wire protocol, as the client functions build them; the
  theorems below compare the requests a run sent with these.
\<close>

definition list_teams_request :: "string option \<Rightarrow> string option \<Rightarrow> request" where
  "list_teams_request org access_token =
     \<lparr>verb = GET, url = ''https://api.github.com/orgs/'' @ str_opt org @ ''/teams'',
      headers = [(''Authorization'', ''Bearer '' @ str_opt access_token)], body = None\<rparr>"

definition list_members_request :: "json_value \<Rightarrow> string option \<Rightarrow> request" where
  "list_members_request team_id access_token =
     \<lparr>verb = GET, url = ''https://api.github.com/teams/'' @ py_str team_id @ ''/members'',
      headers = [(''Authorization'', ''Bearer '' @ str_opt access_token)], body = None\<rparr>"

definition create_team_request :: "string option \<Rightarrow> string option \<Rightarrow> json_value \<Rightarrow> request" where
  "create_team_request org access_token team_data =
     \<lparr>verb = POST, url = ''https://api.github.com/orgs/'' @ str_opt org @ ''/teams'',
      headers = [(''Authorization'', ''Bearer '' @ str_opt access_token)],
      body = Some team_data\<rparr>"

definition add_member_request :: "json_value \<Rightarrow> string option \<Rightarrow> json_value \<Rightarrow> request" where
  "add_member_request team_id access_token username =
     \<lparr>verb = PUT,
      url = ''https://api.github.com/teams/'' @ py_str team_id @ ''/memberships/''
            @ py_str username,
      headers = [(''Authorization'', ''Bearer '' @ str_opt access_token)], body = None\<rparr>"

text \<open>The requests sent between two worlds of a run.\<close>

definition new_requests :: "world \<Rightarrow> world \<Rightarrow> request list" where
  "new_requests w w' = drop (length (sent w)) (sent w')"

definition creation_calls :: "request list \<Rightarrow> request list" where
  "creation_calls rs = filter (\<lambda>r. verb r = POST) rs"

definition member_additions :: "request list \<Rightarrow> request list" where
  "member_additions rs = filter (\<lambda>r. verb r = PUT) rs"

definition new_lines :: "world \<Rightarrow> world \<Rightarrow> string list" where
  "new_lines w w' = drop (length (stdout w)) (stdout w')"

section \<open>Sample platforms\<close>

text \<open>
  The end-to-end scenario: organization Acme has the teams core and infra, core has the
  member alice, creating core in Zenith succeeds with identifier 101 and creating infra
  fails with status 500.
\<close>

definition fresh :: world where
  "fresh = \<lparr>sent = [], stdout = []\<rparr>"

definition team_core :: json_value where
  "team_core = JObj [(''id'', JInt 1), (''name'', JStr ''core'')]"

definition team_infra :: json_value where
  "team_infra = JObj [(''id'', JInt 2), (''name'', JStr ''infra'')]"

definition alice :: json_value where
  "alice = JObj [(''login'', JStr ''alice'')]"

definition bob :: json_value where
  "bob = JObj [(''login'', JStr ''bob'')]"

definition acme_platform :: platform where
  "acme_platform hist rq =
     (if verb rq = GET \<and> url rq = ''https://api.github.com/orgs/Acme/teams''
        then \<lparr>status_code = 200, json = JList [team_core, team_infra]\<rparr>
      else if verb rq = POST \<and> body rq = Some team_core
        then \<lparr>status_code = 201, json = JObj [(''id'', JInt 101), (''name'', JStr ''core'')]\<rparr>
      else if verb rq = GET \<and> url rq = ''https://api.github.com/teams/1/members''
        then \<lparr>status_code = 200, json = JList [alice]\<rparr>
      else if verb rq = PUT then \<lparr>status_code = 200, json = JObj []\<rparr>
      else \<lparr>status_code = 500, json = JNull\<rparr>)"

text \<open>A platform that answers by the request's verb alone.\<close>

definition by_method :: "response \<Rightarrow> response \<Rightarrow> response \<Rightarrow> platform" where
  "by_method on_get on_post on_put hist rq =
     (case verb rq of GET \<Rightarrow> on_get | POST \<Rightarrow> on_post | PUT \<Rightarrow> on_put)"

text \<open>A team object without a name, and a member object without a login.\<close>

definition team_unnamed :: json_value where
  "team_unnamed = JObj [(''id'', JInt 3)]"

definition member_without_login :: json_value where
  "member_without_login = JObj [(''id'', JInt 7)]"

section \<open>What each client function does\<close>

lemma get_teams_unfold:
  "get_teams srv org tok w =
     (if status_code (srv (sent w) (list_teams_request org tok)) = 200
      then (Inr (json (srv (sent w) (list_teams_request org tok))),
            w\<lparr>sent := sent w @ [list_teams_request org tok]\<rparr>)
      else (Inr JNull,
            w\<lparr>sent := sent w @ [list_teams_request org tok],
              stdout := stdout w @ [''Failed to fetch teams from '' @ str_opt org
                @ ''. Status code: ''
                @ str_int (status_code (srv (sent w) (list_teams_request org tok)))]\<rparr>))"
  by (simp add: Let_def get_teams_def requests_get_def send_def print_def list_teams_request_def
      apiUrl_def auth_headers_def)

lemma get_team_members_unfold:
  "get_team_members srv tid tok w =
     (if status_code (srv (sent w) (list_members_request tid tok)) = 200
      then (Inr (json (srv (sent w) (list_members_request tid tok))),
            w\<lparr>sent := sent w @ [list_members_request tid tok]\<rparr>)
      else (Inr JNull,
            w\<lparr>sent := sent w @ [list_members_request tid tok],
              stdout := stdout w @ [''Failed to fetch members for team '' @ py_str tid
                @ ''. Status code: ''
                @ str_int (status_code (srv (sent w) (list_members_request tid tok)))]\<rparr>))"
  by (simp add: Let_def get_team_members_def requests_get_def send_def print_def
      list_members_request_def apiUrl_def auth_headers_def)

lemma create_team_unfold:
  "create_team srv org tok team w =
     (case subscript team ''name'' of
        Inl e \<Rightarrow> (Inl e, w\<lparr>sent := sent w @ [create_team_request org tok team]\<rparr>)
      | Inr name \<Rightarrow>
          if status_code (srv (sent w) (create_team_request org tok team)) = 201
          then (Inr (json (srv (sent w) (create_team_request org tok team))),
                w\<lparr>sent := sent w @ [create_team_request org tok team],
                  stdout := stdout w @ [''Team - '' @ py_str name
                    @ '' created successfully in '' @ str_opt org]\<rparr>)
          else (Inr JNull,
                w\<lparr>sent := sent w @ [create_team_request org tok team],
                  stdout := stdout w @ [''Failed to create team '' @ py_str name @ '' in ''
                    @ str_opt org @ ''. Status code: ''
                    @ str_int (status_code (srv (sent w) (create_team_request org tok team)))]\<rparr>))"
  by (simp add: Let_def create_team_def requests_post_def send_def print_def create_team_request_def
      apiUrl_def auth_headers_def split: sum.splits)

lemma add_members_loop_step:
  "subscript member ''login'' = Inr username \<Longrightarrow>
   add_members_loop srv u hs tid (member # members) w =
     add_members_loop srv u hs tid members
       (w\<lparr>sent := sent w @ [\<lparr>verb = PUT, url = u @ ''/'' @ py_str username,
                               headers = hs, body = None\<rparr>],
          stdout := stdout w @
            [if status_code (srv (sent w) \<lparr>verb = PUT, url = u @ ''/'' @ py_str username,
                                          headers = hs, body = None\<rparr>) = 200
             then ''Member - '' @ py_str username @ '' added successfully to team '' @ py_str tid
             else ''Failed to add member '' @ py_str username @ '' to team '' @ py_str tid
                  @ ''. Status code: ''
                  @ str_int (status_code (srv (sent w)
                      \<lparr>verb = PUT, url = u @ ''/'' @ py_str username,
                       headers = hs, body = None\<rparr>))]\<rparr>)"
  by (simp add: Let_def requests_put_def send_def print_def)

text \<open>Whatever the loop does, it only appends PUT requests with the given headers, and lines.\<close>

lemma add_members_loop_shape:
  "\<exists>rs ls. sent (snd (add_members_loop srv u hs tid ms w)) = sent w @ rs
         \<and> stdout (snd (add_members_loop srv u hs tid ms w)) = stdout w @ ls
         \<and> (\<forall>r \<in> set rs. verb r = PUT \<and> headers r = hs)"
proof (induction ms arbitrary: w)
  case Nil
  show ?case by simp
next
  case (Cons m ms)
  show ?case
  proof (cases "subscript m ''login''")
    case (Inl e)
    then show ?thesis by simp
  next
    case (Inr username)
    let ?rq = "\<lparr>verb = PUT, url = u @ ''/'' @ py_str username, headers = hs, body = None\<rparr>"
    obtain w2 where step: "add_members_loop srv u hs tid (m # ms) w = add_members_loop srv u hs tid ms w2"
      and s2: "sent w2 = sent w @ [?rq]" and o2: "\<exists>l. stdout w2 = stdout w @ [l]"
      using add_members_loop_step [OF Inr, of srv u hs tid ms w] by simp
    from Cons.IH [of w2] obtain rs ls where
      a: "sent (snd (add_members_loop srv u hs tid ms w2)) = sent w2 @ rs"
      and b: "stdout (snd (add_members_loop srv u hs tid ms w2)) = stdout w2 @ ls"
      and c: "\<forall>r \<in> set rs. verb r = PUT \<and> headers r = hs"
      by blast
    from o2 obtain l where o2': "stdout w2 = stdout w @ [l]" by blast
    have "sent (snd (add_members_loop srv u hs tid (m # ms) w)) = sent w @ (?rq # rs)"
      using step a s2 by simp
    moreover have "stdout (snd (add_members_loop srv u hs tid (m # ms) w)) = stdout w @ (l # ls)"
      using step b o2' by simp
    moreover have "\<forall>r \<in> set (?rq # rs). verb r = PUT \<and> headers r = hs"
      using c by simp
    ultimately show ?thesis by blast
  qed
qed

text \<open>When every member has a login, the loop sends one PUT per member and returns.\<close>

lemma add_members_loop_all:
  "map (\<lambda>m. subscript m ''login'') ms = map Inr us \<Longrightarrow>
   fst (add_members_loop srv u hs tid ms w) = Inr ()
   \<and> sent (snd (add_members_loop srv u hs tid ms w)) =
       sent w @ map (\<lambda>x. \<lparr>verb = PUT, url = u @ ''/'' @ py_str x, headers = hs, body = None\<rparr>) us
   \<and> length (stdout (snd (add_members_loop srv u hs tid ms w))) = length (stdout w) + length ms"
proof (induction ms arbitrary: us w)
  case Nil
  then show ?case by simp
next
  case (Cons m ms)
  from Cons.prems obtain x xs where us: "us = x # xs" and hx: "subscript m ''login'' = Inr x"
    and rest: "map (\<lambda>m. subscript m ''login'') ms = map Inr xs"
    by (cases us) auto
  show ?case
    unfolding add_members_loop_step [OF hx] us
    using Cons.IH [OF rest] by simp
qed

text \<open>The loop stops at the first member without a login, raising the lookup's error.\<close>

lemma add_members_loop_stops:
  "map (\<lambda>m. subscript m ''login'') pre = map Inr us \<Longrightarrow> subscript m ''login'' = Inl e \<Longrightarrow>
   fst (add_members_loop srv u hs tid (pre @ m # post) w) = Inl e
   \<and> sent (snd (add_members_loop srv u hs tid (pre @ m # post) w)) =
       sent w @ map (\<lambda>x. \<lparr>verb = PUT, url = u @ ''/'' @ py_str x, headers = hs, body = None\<rparr>) us"
proof (induction pre arbitrary: us w)
  case Nil
  then show ?case by simp
next
  case (Cons p pre)
  from Cons.prems obtain x xs where us: "us = x # xs" and hx: "subscript p ''login'' = Inr x"
    and rest: "map (\<lambda>m. subscript m ''login'') pre = map Inr xs"
    by (cases us) auto
  show ?case
    unfolding append_Cons add_members_loop_step [OF hx] us
    using Cons.IH [OF rest Cons.prems(2)] by simp
qed

lemma add_members_to_team_falsy:
  "\<not> truthy tid \<Longrightarrow>
   add_members_to_team srv tid tok members w =
     (Inr (), w\<lparr>stdout := stdout w @ [''Team ID is not valid. Skipping adding members.'']\<rparr>)"
  by (simp add: add_members_to_team_def print_def)

lemma add_members_to_team_list:
  "truthy tid \<Longrightarrow>
   add_members_to_team srv tid tok (JList ms) w =
     add_members_loop srv (''https://api.github.com/teams/'' @ py_str tid @ ''/memberships'')
       [(''Authorization'', ''Bearer '' @ str_opt tok)] tid ms w"
  by (simp add: add_members_to_team_def apiUrl_def auth_headers_def)

lemma add_members_to_team_shape:
  "\<exists>rs ls. sent (snd (add_members_to_team srv tid tok members w)) = sent w @ rs
         \<and> stdout (snd (add_members_to_team srv tid tok members w)) = stdout w @ ls
         \<and> (\<forall>r \<in> set rs. verb r = PUT
                \<and> headers r = [(''Authorization'', ''Bearer '' @ str_opt tok)])
         \<and> (\<not> truthy tid \<longrightarrow> rs = [])"
proof (cases "truthy tid")
  case False
  then show ?thesis by (simp add: add_members_to_team_falsy)
next
  case True
  show ?thesis
  proof (cases "py_iter members")
    case (Inl e)
    with True show ?thesis by (simp add: add_members_to_team_def)
  next
    case (Inr ms)
    with True have "add_members_to_team srv tid tok members w =
        add_members_loop srv (''https://api.github.com/teams/'' @ py_str tid @ ''/memberships'')
          [(''Authorization'', ''Bearer '' @ str_opt tok)] tid ms w"
      by (simp add: add_members_to_team_def apiUrl_def auth_headers_def)
    with True show ?thesis
      using add_members_loop_shape
        [of srv "''https://api.github.com/teams/'' @ py_str tid @ ''/memberships''"
            "[(''Authorization'', ''Bearer '' @ str_opt tok)]" tid ms w]
      by simp
  qed
qed

section \<open>What one iteration of the team loop does\<close>

text \<open>
  Every iteration sends the creation request first. Whatever follows is no POST; a PUT
  follows only when the creation answered 201 with a body whose \<^verbatim>\<open>id\<close> is truthy, and
  nothing follows when it answered another status.
\<close>

lemma transfer_team_shape:
  "\<exists>rs ls. sent (snd (transfer_team srv d tok team w)) =
             sent w @ create_team_request d tok team # rs
         \<and> stdout (snd (transfer_team srv d tok team w)) = stdout w @ ls
         \<and> (\<forall>r \<in> set rs. verb r \<noteq> POST
                \<and> headers r = [(''Authorization'', ''Bearer '' @ str_opt tok)])
         \<and> ((\<exists>r \<in> set rs. verb r = PUT) \<longrightarrow>
               status_code (srv (sent w) (create_team_request d tok team)) = 201
               \<and> (\<exists>i. subscript (json (srv (sent w) (create_team_request d tok team))) ''id''
                        = Inr i \<and> truthy i))
         \<and> (status_code (srv (sent w) (create_team_request d tok team)) \<noteq> 201
              \<or> \<not> truthy (json (srv (sent w) (create_team_request d tok team)))
              \<longrightarrow> rs = [])"
proof -
  let ?rq = "create_team_request d tok team"
  let ?r = "srv (sent w) ?rq"
  let ?H = "[(''Authorization'', ''Bearer '' @ str_opt tok)]"
  have early: ?thesis
    if "sent (snd (transfer_team srv d tok team w)) = sent w @ [?rq]"
      and "\<exists>ls. stdout (snd (transfer_team srv d tok team w)) = stdout w @ ls"
  proof -
    from that(2) obtain ls where "stdout (snd (transfer_team srv d tok team w)) = stdout w @ ls"
      by blast
    with that(1) show ?thesis
      by (intro exI [of _ "[]"] exI [of _ ls]) simp
  qed
  show ?thesis
  proof (cases "subscript team ''name''")
    case (Inl e)
    then have "transfer_team srv d tok team w = (Inl e, w\<lparr>sent := sent w @ [?rq]\<rparr>)"
      by (simp add: transfer_team_def create_team_unfold)
    then show ?thesis by (intro early) simp_all
  next
    case name: (Inr n)
    show ?thesis
    proof (cases "status_code ?r = 201 \<and> truthy (json ?r)")
      case False
      then have "sent (snd (transfer_team srv d tok team w)) = sent w @ [?rq]"
        and "\<exists>ls. stdout (snd (transfer_team srv d tok team w)) = stdout w @ ls"
        using name by (auto simp add: transfer_team_def create_team_unfold)
      then show ?thesis by (rule early)
    next
      case ok: True
      define w1 where "w1 = w\<lparr>sent := sent w @ [?rq],
        stdout := stdout w @ [''Team - '' @ py_str n @ '' created successfully in '' @ str_opt d]\<rparr>"
      have ct: "create_team srv d tok team w = (Inr (json ?r), w1)"
        using name ok by (simp add: create_team_unfold w1_def)
      show ?thesis
      proof (cases "subscript (json ?r) ''id''")
        case (Inl e)
        then have "transfer_team srv d tok team w = (Inl e, w1)"
          using ct ok by (simp add: transfer_team_def)
        then show ?thesis by (intro early) (simp_all add: w1_def)
      next
        case nid: (Inr new_team_id)
        show ?thesis
        proof (cases "subscript team ''id''")
          case (Inl e)
          then have "transfer_team srv d tok team w = (Inl e, w1)"
            using ct ok nid by (simp add: transfer_team_def)
          then show ?thesis by (intro early) (simp_all add: w1_def)
        next
          case tid: (Inr team_id)
          let ?mq = "list_members_request team_id tok"
          obtain v w2 where gm: "get_team_members srv team_id tok w1 = (Inr v, w2)"
            and s2: "sent w2 = sent w @ [?rq, ?mq]"
            and o2: "\<exists>ls. stdout w2 = stdout w @ ls"
            by (cases "status_code (srv (sent w1) ?mq) = 200")
              (simp_all add: get_team_members_unfold w1_def)
          from o2 obtain l2 where o2': "stdout w2 = stdout w @ l2" by blast
          have mq: "verb ?mq \<noteq> POST \<and> verb ?mq \<noteq> PUT \<and> headers ?mq = ?H"
            by (simp add: list_members_request_def)
          show ?thesis
          proof (cases "truthy v")
            case False
            then have tt: "transfer_team srv d tok team w = (Inr (), w2)"
              using ct ok nid tid gm by (simp add: transfer_team_def)
            show ?thesis
              using tt s2 o2' mq ok nid
              by (intro exI [of _ "[?mq]"] exI [of _ l2]) simp
          next
            case True
            then have tt: "transfer_team srv d tok team w =
                add_members_to_team srv new_team_id tok v w2"
              using ct ok nid tid gm by (simp add: transfer_team_def)
            obtain rs ls where
              a: "sent (snd (add_members_to_team srv new_team_id tok v w2)) = sent w2 @ rs"
              and b: "stdout (snd (add_members_to_team srv new_team_id tok v w2)) = stdout w2 @ ls"
              and c: "\<forall>r \<in> set rs. verb r = PUT \<and> headers r = ?H"
              and f: "\<not> truthy new_team_id \<longrightarrow> rs = []"
              using add_members_to_team_shape [of srv new_team_id tok v w2] by blast
            have put: "(\<exists>r \<in> set (?mq # rs). verb r = PUT) \<longrightarrow> truthy new_team_id"
              using f mq by auto
            show ?thesis
              using tt a b c s2 o2' mq ok nid put
              by (intro exI [of _ "?mq # rs"] exI [of _ "l2 @ ls"]) auto
          qed
        qed
      qed
    qed
  qed
qed

section \<open>What the team loop and the whole transfer do\<close>

lemma transfer_loop_shape:
  "\<exists>rs ls. sent (snd (transfer_loop srv d tok ts w)) = sent w @ rs
         \<and> stdout (snd (transfer_loop srv d tok ts w)) = stdout w @ ls
         \<and> (\<forall>r \<in> set rs. headers r = [(''Authorization'', ''Bearer '' @ str_opt tok)])
         \<and> prefix (creation_calls rs) (map (create_team_request d tok) ts)
         \<and> (fst (transfer_loop srv d tok ts w) = Inr () \<longrightarrow>
               creation_calls rs = map (create_team_request d tok) ts)"
proof (induction ts arbitrary: w)
  case Nil
  show ?case by (simp add: creation_calls_def)
next
  case (Cons t ts)
  let ?H = "[(''Authorization'', ''Bearer '' @ str_opt tok)]"
  let ?rq = "create_team_request d tok t"
  obtain res w1 where tt: "transfer_team srv d tok t w = (res, w1)"
    by (cases "transfer_team srv d tok t w") blast
  obtain rs1 ls1 where
    a1: "sent w1 = sent w @ ?rq # rs1" and b1: "stdout w1 = stdout w @ ls1"
    and c1: "\<forall>r \<in> set rs1. verb r \<noteq> POST \<and> headers r = ?H"
    using transfer_team_shape [of srv d tok t w] tt by auto
  have rq: "verb ?rq = POST \<and> headers ?rq = ?H"
    by (simp add: create_team_request_def)
  have none1: "filter (\<lambda>r. verb r = POST) rs1 = []"
    using c1 by (simp add: filter_empty_conv)
  have calls1: "creation_calls (?rq # rs1) = [?rq]"
    using none1 rq by (simp add: creation_calls_def)
  show ?case
  proof (cases res)
    case (Inl e)
    then have "transfer_loop srv d tok (t # ts) w = (Inl e, w1)"
      using tt by simp
    then show ?thesis
      using a1 b1 c1 rq calls1
      by (intro exI [of _ "?rq # rs1"] exI [of _ ls1]) simp
  next
    case (Inr u)
    then have step: "transfer_loop srv d tok (t # ts) w = transfer_loop srv d tok ts w1"
      using tt by simp
    obtain rs2 ls2 where
      a2: "sent (snd (transfer_loop srv d tok ts w1)) = sent w1 @ rs2"
      and b2: "stdout (snd (transfer_loop srv d tok ts w1)) = stdout w1 @ ls2"
      and c2: "\<forall>r \<in> set rs2. headers r = ?H"
      and p2: "prefix (creation_calls rs2) (map (create_team_request d tok) ts)"
      and f2: "fst (transfer_loop srv d tok ts w1) = Inr () \<longrightarrow>
                 creation_calls rs2 = map (create_team_request d tok) ts"
      using Cons.IH [of w1] by blast
    have calls: "creation_calls ((?rq # rs1) @ rs2) = ?rq # creation_calls rs2"
      using none1 rq by (simp add: creation_calls_def)
    show ?thesis
      unfolding step
      using a1 b1 c1 rq a2 b2 c2 p2 f2 calls
      by (intro exI [of _ "(?rq # rs1) @ rs2"] exI [of _ "ls1 @ ls2"]) auto
  qed
qed

lemma transfer_teams_shape:
  "\<exists>rs ls. sent (snd (transfer_teams srv s d tok w)) = sent w @ list_teams_request s tok # rs
         \<and> stdout (snd (transfer_teams srv s d tok w)) = stdout w @ ls
         \<and> (\<forall>r \<in> set rs. headers r = [(''Authorization'', ''Bearer '' @ str_opt tok)])"
proof -
  let ?q = "list_teams_request s tok"
  obtain v w1 where gt: "get_teams srv s tok w = (Inr v, w1)"
    and s1: "sent w1 = sent w @ [?q]" and o1: "\<exists>ls. stdout w1 = stdout w @ ls"
    by (cases "status_code (srv (sent w) ?q) = 200") (simp_all add: get_teams_unfold)
  from o1 obtain l1 where o1': "stdout w1 = stdout w @ l1" by blast
  show ?thesis
  proof (cases "truthy v")
    case False
    then have "transfer_teams srv s d tok w = (Inr (), w1)"
      using gt by (simp add: transfer_teams_def)
    then show ?thesis
      using s1 o1' by (intro exI [of _ "[]"] exI [of _ l1]) simp
  next
    case True
    show ?thesis
    proof (cases "py_iter v")
      case (Inl e)
      then have "transfer_teams srv s d tok w = (Inl e, w1)"
        using gt True by (simp add: transfer_teams_def)
      then show ?thesis
        using s1 o1' by (intro exI [of _ "[]"] exI [of _ l1]) simp
    next
      case (Inr ts)
      then have tl: "transfer_teams srv s d tok w = transfer_loop srv d tok ts w1"
        using gt True by (simp add: transfer_teams_def)
      obtain rs ls where
        a: "sent (snd (transfer_loop srv d tok ts w1)) = sent w1 @ rs"
        and b: "stdout (snd (transfer_loop srv d tok ts w1)) = stdout w1 @ ls"
        and c: "\<forall>r \<in> set rs. headers r = [(''Authorization'', ''Bearer '' @ str_opt tok)]"
        using transfer_loop_shape [of srv d tok ts w1] by blast
      show ?thesis
        unfolding tl using a b c s1 o1'
        by (intro exI [of _ rs] exI [of _ "l1 @ ls"]) simp
    qed
  qed
qed

lemma new_requests_append: "sent w' = sent w @ rs \<Longrightarrow> new_requests w w' = rs"
  by (simp add: new_requests_def)

lemma new_lines_append: "stdout w' = stdout w @ ls \<Longrightarrow> new_lines w w' = ls"
  by (simp add: new_lines_def)

section \<open>Claims\<close>

text \<open>
  C6. When the team identifier handed to \<open>add_members_to_team\<close> is absent or falsy, the
  function prints its diagnostic and returns without sending any request and without
  raising, whatever the credential and the member list are.
\<close>

theorem falsy_team_id_short_circuits:
  "\<not> truthy team_id \<Longrightarrow>
   fst (add_members_to_team srv team_id access_token members w) = Inr ()
   \<and> sent (snd (add_members_to_team srv team_id access_token members w)) = sent w
   \<and> stdout (snd (add_members_to_team srv team_id access_token members w)) =
       stdout w @ [''Team ID is not valid. Skipping adding members.'']"
  by (simp add: add_members_to_team_falsy)

theorem falsy_team_id_short_circuits_witness:
  "\<not> truthy JNull
   \<and> fst (add_members_to_team acme_platform JNull None (JList [alice, member_without_login]) fresh)
       = Inr ()
   \<and> sent (snd (add_members_to_team acme_platform JNull None
                  (JList [alice, member_without_login]) fresh)) = []
   \<and> stdout (snd (add_members_to_team acme_platform JNull None
                    (JList [alice, member_without_login]) fresh)) =
       [''Team ID is not valid. Skipping adding members.'']"
proof -
  have h: "\<not> truthy JNull" by simp
  show ?thesis
    using h falsy_team_id_short_circuits
      [OF h, of acme_platform None "JList [alice, member_without_login]" fresh]
    by (simp add: fresh_def)
qed

text \<open>
  C3. When listing the source organization's teams yields nothing (an absent result or
  an empty list), \<open>transfer_teams\<close> returns in the world \<open>get_teams\<close> left: the listing
  request is the only request sent, so no team is created and no member added, and
  nothing is printed after what \<open>get_teams\<close> printed.
\<close>

theorem no_teams_nothing_done:
  "get_teams srv source_org access_token w = (Inr teams, w1) \<Longrightarrow>
   teams = JNull \<or> teams = JList [] \<Longrightarrow>
   transfer_teams srv source_org destination_org access_token w = (Inr (), w1)
   \<and> sent w1 = sent w @ [list_teams_request source_org access_token]
   \<and> creation_calls (new_requests w w1) = []
   \<and> member_additions (new_requests w w1) = []"
proof -
  assume gt: "get_teams srv source_org access_token w = (Inr teams, w1)"
    and none: "teams = JNull \<or> teams = JList []"
  from none have falsy: "\<not> truthy teams" by auto
  have run: "transfer_teams srv source_org destination_org access_token w = (Inr (), w1)"
    using gt falsy by (simp add: transfer_teams_def)
  have s1: "sent w1 = sent w @ [list_teams_request source_org access_token]"
    using gt by (auto simp add: get_teams_unfold split: if_splits)
  have "new_requests w w1 = [list_teams_request source_org access_token]"
    using s1 by (rule new_requests_append)
  then show ?thesis
    using run s1
    by (simp add: creation_calls_def member_additions_def list_teams_request_def)
qed

theorem no_teams_nothing_done_witness:
  "get_teams acme_platform (Some ''Ghost'') None fresh =
     (Inr JNull, \<lparr>sent = [list_teams_request (Some ''Ghost'') None],
                  stdout = [''Failed to fetch teams from Ghost. Status code: 500'']\<rparr>)
   \<and> transfer_teams acme_platform (Some ''Ghost'') (Some ''Zenith'') None fresh =
     (Inr (), \<lparr>sent = [list_teams_request (Some ''Ghost'') None],
               stdout = [''Failed to fetch teams from Ghost. Status code: 500'']\<rparr>)
   \<and> get_teams (by_method \<lparr>status_code = 200, json = JList []\<rparr>
                  \<lparr>status_code = 201, json = team_core\<rparr> \<lparr>status_code = 200, json = JNull\<rparr>)
        (Some ''Acme'') None fresh =
     (Inr (JList []), \<lparr>sent = [list_teams_request (Some ''Acme'') None], stdout = []\<rparr>)
   \<and> transfer_teams (by_method \<lparr>status_code = 200, json = JList []\<rparr>
                  \<lparr>status_code = 201, json = team_core\<rparr> \<lparr>status_code = 200, json = JNull\<rparr>)
        (Some ''Acme'') (Some ''Zenith'') None fresh =
     (Inr (), \<lparr>sent = [list_teams_request (Some ''Acme'') None], stdout = []\<rparr>)"
proof -
  let ?empty = "by_method \<lparr>status_code = 200, json = JList []\<rparr>
    \<lparr>status_code = 201, json = team_core\<rparr> \<lparr>status_code = 200, json = JNull\<rparr>"
  have absent: "get_teams acme_platform (Some ''Ghost'') None fresh =
     (Inr JNull, \<lparr>sent = [list_teams_request (Some ''Ghost'') None],
                  stdout = [''Failed to fetch teams from Ghost. Status code: 500'']\<rparr>)"
    by (simp add: get_teams_unfold acme_platform_def list_teams_request_def fresh_def
        str_int_def str_nat.simps digit_char_def)
  have empty: "get_teams ?empty (Some ''Acme'') None fresh =
     (Inr (JList []), \<lparr>sent = [list_teams_request (Some ''Acme'') None], stdout = []\<rparr>)"
    by (simp add: get_teams_unfold by_method_def list_teams_request_def fresh_def)
  show ?thesis
    using absent empty
      no_teams_nothing_done [OF absent, of "Some ''Zenith''"]
      no_teams_nothing_done [OF empty, of "Some ''Zenith''"]
    by simp
qed

text \<open>
  C7, as claimed: for every response status each of \<open>get_teams\<close>, \<open>get_team_members\<close>
  and \<open>create_team\<close> returns the parsed body exactly on its success status and otherwise
  prints a diagnostic with the status code and returns \<^verbatim>\<open>None\<close>. This fails for
  \<open>create_team\<close> on a payload without a name: the destination answers 201 and the call
  raises KeyError instead of returning the body, and nothing is printed.
\<close>

theorem create_team_unnamed_counterexample:
  "status_code (by_method \<lparr>status_code = 200, json = JList []\<rparr>
                  \<lparr>status_code = 201, json = JObj [(''id'', JInt 101)]\<rparr>
                  \<lparr>status_code = 200, json = JNull\<rparr>
                  (sent fresh) (create_team_request (Some ''Zenith'') (Some ''t0ken'') team_unnamed))
     = 201
   \<and> create_team (by_method \<lparr>status_code = 200, json = JList []\<rparr>
                  \<lparr>status_code = 201, json = JObj [(''id'', JInt 101)]\<rparr>
                  \<lparr>status_code = 200, json = JNull\<rparr>)
        (Some ''Zenith'') (Some ''t0ken'') team_unnamed fresh =
     (Inl (KeyError ''name''),
      \<lparr>sent = [create_team_request (Some ''Zenith'') (Some ''t0ken'') team_unnamed],
       stdout = []\<rparr>)"
  by (simp add: create_team_unfold by_method_def create_team_request_def team_unnamed_def
      fresh_def)

text \<open>
  C7, amended: for every response status, \<open>get_teams\<close> and \<open>get_team_members\<close> send one
  request and return the parsed body when the status is 200, and otherwise print one
  diagnostic ending in the status code and return \<^verbatim>\<open>None\<close>; \<open>create_team\<close> does the
  same around status 201 (printing a success line on 201) when the payload has a
  \<^verbatim>\<open>name\<close> key. No call is repeated and the failure statuses are not told apart.
\<close>

theorem status_decides_result:
  "subscript team_data ''name'' = Inr name \<Longrightarrow>
   (let r = srv (sent w) (list_teams_request org tok); out = get_teams srv org tok w
    in fst out = Inr (if status_code r = 200 then json r else JNull)
       \<and> sent (snd out) = sent w @ [list_teams_request org tok]
       \<and> stdout (snd out) = stdout w @
           (if status_code r = 200 then []
            else [''Failed to fetch teams from '' @ str_opt org @ ''. Status code: ''
                  @ str_int (status_code r)]))
   \<and> (let r = srv (sent w) (list_members_request team_id tok);
          out = get_team_members srv team_id tok w
      in fst out = Inr (if status_code r = 200 then json r else JNull)
         \<and> sent (snd out) = sent w @ [list_members_request team_id tok]
         \<and> stdout (snd out) = stdout w @
             (if status_code r = 200 then []
              else [''Failed to fetch members for team '' @ py_str team_id
                    @ ''. Status code: '' @ str_int (status_code r)]))
   \<and> (let r = srv (sent w) (create_team_request org tok team_data);
          out = create_team srv org tok team_data w
      in fst out = Inr (if status_code r = 201 then json r else JNull)
         \<and> sent (snd out) = sent w @ [create_team_request org tok team_data]
         \<and> stdout (snd out) = stdout w @
             [if status_code r = 201
              then ''Team - '' @ py_str name @ '' created successfully in '' @ str_opt org
              else ''Failed to create team '' @ py_str name @ '' in '' @ str_opt org
                   @ ''. Status code: '' @ str_int (status_code r)])"
  by (simp add: Let_def get_teams_unfold get_team_members_unfold create_team_unfold)

theorem status_decides_result_witness:
  "subscript team_infra ''name'' = Inr (JStr ''infra'')
   \<and> fst (get_teams acme_platform (Some ''Acme'') None fresh) = Inr (JList [team_core, team_infra])
   \<and> stdout (snd (get_teams acme_platform (Some ''Acme'') None fresh)) = []
   \<and> fst (get_team_members acme_platform (JInt 2) None fresh) = Inr JNull
   \<and> stdout (snd (get_team_members acme_platform (JInt 2) None fresh)) =
       [''Failed to fetch members for team 2. Status code: 500'']
   \<and> fst (create_team acme_platform (Some ''Acme'') None team_infra fresh) = Inr JNull
   \<and> sent (snd (create_team acme_platform (Some ''Acme'') None team_infra fresh)) =
       [create_team_request (Some ''Acme'') None team_infra]
   \<and> stdout (snd (create_team acme_platform (Some ''Acme'') None team_infra fresh)) =
       [''Failed to create team infra in Acme. Status code: 500'']"
proof -
  have h: "subscript team_infra ''name'' = Inr (JStr ''infra'')"
    by (simp add: team_infra_def)
  show ?thesis
    using h status_decides_result [OF h, of acme_platform fresh "Some ''Acme''" None "JInt 2"]
    by (simp add: Let_def acme_platform_def list_teams_request_def list_members_request_def
        create_team_request_def fresh_def team_infra_def team_core_def str_int_def
        str_nat.simps digit_char_def)
qed

text \<open>
  C4, as claimed: for every truthy team identifier and every list of member objects,
  \<open>add_members_to_team\<close> sends one PUT per member. This fails on a list that holds a
  member object without a login: the loop raises KeyError there, and bob, who comes
  after it, gets no request although every PUT before answered 200.
\<close>

theorem add_members_counterexample:
  "truthy (JInt 101)
   \<and> add_members_to_team acme_platform (JInt 101) None
        (JList [alice, member_without_login, bob]) fresh =
     (Inl (KeyError ''login''),
      \<lparr>sent = [add_member_request (JInt 101) None (JStr ''alice'')],
       stdout = [''Member - alice added successfully to team 101'']\<rparr>)"
  by (simp add: add_members_to_team_def apiUrl_def auth_headers_def Let_def requests_put_def
      send_def print_def acme_platform_def add_member_request_def alice_def bob_def
      member_without_login_def fresh_def str_int_def str_nat.simps digit_char_def)

text \<open>
  C4, amended: for every truthy team identifier and every list of member objects that
  all have a \<^verbatim>\<open>login\<close> key, \<open>add_members_to_team\<close> sends exactly one PUT per member, to
  the membership URL of that member's login, in list order, prints one line per member
  and returns normally, whatever status each PUT is answered with.
\<close>

theorem one_put_per_member:
  "truthy team_id \<Longrightarrow>
   map (\<lambda>m. subscript m ''login'') members = map Inr logins \<Longrightarrow>
   fst (add_members_to_team srv team_id access_token (JList members) w) = Inr ()
   \<and> sent (snd (add_members_to_team srv team_id access_token (JList members) w)) =
       sent w @ map (add_member_request team_id access_token) logins
   \<and> length (stdout (snd (add_members_to_team srv team_id access_token (JList members) w))) =
       length (stdout w) + length members"
proof -
  assume t: "truthy team_id"
    and l: "map (\<lambda>m. subscript m ''login'') members = map Inr logins"
  have rq: "(\<lambda>x. \<lparr>verb = PUT,
                 url = (''https://api.github.com/teams/'' @ py_str team_id @ ''/memberships'')
                       @ ''/'' @ py_str x,
                 headers = [(''Authorization'', ''Bearer '' @ str_opt access_token)],
                 body = None\<rparr>) = add_member_request team_id access_token"
    by (rule ext) (simp add: add_member_request_def)
  show ?thesis
    unfolding add_members_to_team_list [OF t]
    using add_members_loop_all [OF l, of srv
        "''https://api.github.com/teams/'' @ py_str team_id @ ''/memberships''"
        "[(''Authorization'', ''Bearer '' @ str_opt access_token)]" team_id w]
    unfolding rq by simp
qed

theorem one_put_per_member_witness:
  "truthy (JInt 101)
   \<and> map (\<lambda>m. subscript m ''login'') [alice, bob] = map Inr [JStr ''alice'', JStr ''bob'']
   \<and> fst (add_members_to_team (by_method \<lparr>status_code = 200, json = JNull\<rparr>
            \<lparr>status_code = 201, json = JNull\<rparr> \<lparr>status_code = 404, json = JNull\<rparr>)
          (JInt 101) (Some ''t0ken'') (JList [alice, bob]) fresh) = Inr ()
   \<and> sent (snd (add_members_to_team (by_method \<lparr>status_code = 200, json = JNull\<rparr>
            \<lparr>status_code = 201, json = JNull\<rparr> \<lparr>status_code = 404, json = JNull\<rparr>)
          (JInt 101) (Some ''t0ken'') (JList [alice, bob]) fresh)) =
       [\<lparr>verb = PUT, url = ''https://api.github.com/teams/101/memberships/alice'',
         headers = [(''Authorization'', ''Bearer t0ken'')], body = None\<rparr>,
        \<lparr>verb = PUT, url = ''https://api.github.com/teams/101/memberships/bob'',
         headers = [(''Authorization'', ''Bearer t0ken'')], body = None\<rparr>]"
proof -
  have t: "truthy (JInt 101)" by simp
  have l: "map (\<lambda>m. subscript m ''login'') [alice, bob] = map Inr [JStr ''alice'', JStr ''bob'']"
    by (simp add: alice_def bob_def)
  show ?thesis
    using t l one_put_per_member [OF t l, of
        "by_method \<lparr>status_code = 200, json = JNull\<rparr>
           \<lparr>status_code = 201, json = JNull\<rparr> \<lparr>status_code = 404, json = JNull\<rparr>"
        "Some ''t0ken''" fresh]
    by (simp add: add_member_request_def fresh_def str_int_def str_nat.simps digit_char_def)
qed

text \<open>
  C5, as claimed: no exception leaves any of the four client functions, and in
  particular \<open>create_team\<close> never raises on a payload without a name and
  \<open>add_members_to_team\<close> never raises on a member without a login. Both do: the failed
  creation below (status 500) ends in KeyError instead of an absent result, and so does
  the member loop at its first member.
\<close>

theorem client_raises_counterexample:
  "fst (create_team acme_platform (Some ''Zenith'') None team_unnamed fresh) =
     Inl (KeyError ''name'')
   \<and> fst (add_members_to_team acme_platform (JInt 101) None (JList [member_without_login]) fresh)
     = Inl (KeyError ''login'')"
  by (simp add: create_team_unfold add_members_to_team_def team_unnamed_def
      member_without_login_def)

text \<open>
  C5, amended: what the client functions turn into an absent result is a response
  whose status is not the success code: on such a response \<open>get_teams\<close> and
  \<open>get_team_members\<close> print their diagnostic and return \<^verbatim>\<open>None\<close>, and so does
  \<open>create_team\<close> when the team payload has a \<^verbatim>\<open>name\<close> key. A missing key is not
  turned into anything: on a payload without \<^verbatim>\<open>name\<close>, \<open>create_team\<close> raises the error
  of the lookup \<^verbatim>\<open>team_data['name']\<close> once the POST is answered, whatever the status, and
  prints nothing; with a truthy identifier, \<open>add_members_to_team\<close> raises the error of
  the lookup \<^verbatim>\<open>member['login']\<close> at the first member without \<^verbatim>\<open>login\<close>, after the PUTs
  for the members before it and with none for the members after it.
\<close>

theorem failure_statuses_absent_missing_keys_raise:
  "(status_code (srv (sent w) (list_teams_request org tok)) \<noteq> 200 \<longrightarrow>
      fst (get_teams srv org tok w) = Inr JNull
      \<and> stdout (snd (get_teams srv org tok w)) = stdout w @
          [''Failed to fetch teams from '' @ str_opt org @ ''. Status code: ''
           @ str_int (status_code (srv (sent w) (list_teams_request org tok)))])
   \<and> (status_code (srv (sent w) (list_members_request team_id tok)) \<noteq> 200 \<longrightarrow>
      fst (get_team_members srv team_id tok w) = Inr JNull
      \<and> stdout (snd (get_team_members srv team_id tok w)) = stdout w @
          [''Failed to fetch members for team '' @ py_str team_id @ ''. Status code: ''
           @ str_int (status_code (srv (sent w) (list_members_request team_id tok)))])
   \<and> (subscript team_data ''name'' = Inr name
        \<and> status_code (srv (sent w) (create_team_request org tok team_data)) \<noteq> 201 \<longrightarrow>
      fst (create_team srv org tok team_data w) = Inr JNull
      \<and> stdout (snd (create_team srv org tok team_data w)) = stdout w @
          [''Failed to create team '' @ py_str name @ '' in '' @ str_opt org
           @ ''. Status code: ''
           @ str_int (status_code (srv (sent w) (create_team_request org tok team_data)))])
   \<and> (subscript team_data ''name'' = Inl e \<longrightarrow>
      fst (create_team srv org tok team_data w) = Inl e
      \<and> sent (snd (create_team srv org tok team_data w)) =
          sent w @ [create_team_request org tok team_data]
      \<and> stdout (snd (create_team srv org tok team_data w)) = stdout w)
   \<and> (truthy team_id \<and> map (\<lambda>m. subscript m ''login'') ms = map Inr logins
        \<and> subscript m ''login'' = Inl e' \<longrightarrow>
      fst (add_members_to_team srv team_id tok (JList (ms @ m # rest)) w) = Inl e'
      \<and> sent (snd (add_members_to_team srv team_id tok (JList (ms @ m # rest)) w)) =
          sent w @ map (add_member_request team_id tok) logins)"
proof -
  have a: "status_code (srv (sent w) (list_teams_request org tok)) \<noteq> 200 \<longrightarrow>
      fst (get_teams srv org tok w) = Inr JNull
      \<and> stdout (snd (get_teams srv org tok w)) = stdout w @
          [''Failed to fetch teams from '' @ str_opt org @ ''. Status code: ''
           @ str_int (status_code (srv (sent w) (list_teams_request org tok)))]"
    by (simp add: get_teams_unfold)
  have b: "status_code (srv (sent w) (list_members_request team_id tok)) \<noteq> 200 \<longrightarrow>
      fst (get_team_members srv team_id tok w) = Inr JNull
      \<and> stdout (snd (get_team_members srv team_id tok w)) = stdout w @
          [''Failed to fetch members for team '' @ py_str team_id @ ''. Status code: ''
           @ str_int (status_code (srv (sent w) (list_members_request team_id tok)))]"
    by (simp add: get_team_members_unfold)
  have c: "subscript team_data ''name'' = Inr name
        \<and> status_code (srv (sent w) (create_team_request org tok team_data)) \<noteq> 201 \<longrightarrow>
      fst (create_team srv org tok team_data w) = Inr JNull
      \<and> stdout (snd (create_team srv org tok team_data w)) = stdout w @
          [''Failed to create team '' @ py_str name @ '' in '' @ str_opt org
           @ ''. Status code: ''
           @ str_int (status_code (srv (sent w) (create_team_request org tok team_data)))]"
    by (simp add: create_team_unfold)
  have d: "subscript team_data ''name'' = Inl e \<longrightarrow>
      fst (create_team srv org tok team_data w) = Inl e
      \<and> sent (snd (create_team srv org tok team_data w)) =
          sent w @ [create_team_request org tok team_data]
      \<and> stdout (snd (create_team srv org tok team_data w)) = stdout w"
    by (simp add: create_team_unfold)
  have rq: "(\<lambda>x. \<lparr>verb = PUT,
                 url = (''https://api.github.com/teams/'' @ py_str team_id @ ''/memberships'')
                       @ ''/'' @ py_str x,
                 headers = [(''Authorization'', ''Bearer '' @ str_opt tok)],
                 body = None\<rparr>) = add_member_request team_id tok"
    by (rule ext) (simp add: add_member_request_def)
  have f: "truthy team_id \<and> map (\<lambda>m. subscript m ''login'') ms = map Inr logins
        \<and> subscript m ''login'' = Inl e' \<longrightarrow>
      fst (add_members_to_team srv team_id tok (JList (ms @ m # rest)) w) = Inl e'
      \<and> sent (snd (add_members_to_team srv team_id tok (JList (ms @ m # rest)) w)) =
          sent w @ map (add_member_request team_id tok) logins"
  proof (intro impI)
    assume h: "truthy team_id \<and> map (\<lambda>m. subscript m ''login'') ms = map Inr logins
        \<and> subscript m ''login'' = Inl e'"
    then have t: "truthy team_id"
      and l: "map (\<lambda>m. subscript m ''login'') ms = map Inr logins"
      and k: "subscript m ''login'' = Inl e'"
      by simp_all
    show "fst (add_members_to_team srv team_id tok (JList (ms @ m # rest)) w) = Inl e'
      \<and> sent (snd (add_members_to_team srv team_id tok (JList (ms @ m # rest)) w)) =
          sent w @ map (add_member_request team_id tok) logins"
      unfolding add_members_to_team_list [OF t]
      using add_members_loop_stops [OF l k, of srv
          "''https://api.github.com/teams/'' @ py_str team_id @ ''/memberships''"
          "[(''Authorization'', ''Bearer '' @ str_opt tok)]" team_id rest w]
      unfolding rq by simp
  qed
  from a b c d f show ?thesis by blast
qed

theorem failure_statuses_absent_missing_keys_raise_witness:
  "status_code (acme_platform (sent fresh) (list_teams_request (Some ''Ghost'') None)) = 500
   \<and> get_teams acme_platform (Some ''Ghost'') None fresh =
       (Inr JNull, \<lparr>sent = [list_teams_request (Some ''Ghost'') None],
                    stdout = [''Failed to fetch teams from Ghost. Status code: 500'']\<rparr>)
   \<and> status_code (acme_platform (sent fresh) (list_members_request (JInt 2) None)) = 500
   \<and> get_team_members acme_platform (JInt 2) None fresh =
       (Inr JNull, \<lparr>sent = [list_members_request (JInt 2) None],
                    stdout = [''Failed to fetch members for team 2. Status code: 500'']\<rparr>)
   \<and> subscript team_infra ''name'' = Inr (JStr ''infra'')
   \<and> status_code (acme_platform (sent fresh)
                    (create_team_request (Some ''Ghost'') None team_infra)) = 500
   \<and> create_team acme_platform (Some ''Ghost'') None team_infra fresh =
       (Inr JNull, \<lparr>sent = [create_team_request (Some ''Ghost'') None team_infra],
                    stdout = [''Failed to create team infra in Ghost. Status code: 500'']\<rparr>)
   \<and> subscript team_unnamed ''name'' = Inl (KeyError ''name'')
   \<and> create_team acme_platform (Some ''Ghost'') None team_unnamed fresh =
       (Inl (KeyError ''name''),
        \<lparr>sent = [create_team_request (Some ''Ghost'') None team_unnamed], stdout = []\<rparr>)
   \<and> subscript (JStr ''core'') ''name'' = Inl TypeError
   \<and> fst (create_team acme_platform (Some ''Ghost'') None (JStr ''core'') fresh) = Inl TypeError
   \<and> truthy (JInt 101)
   \<and> map (\<lambda>m. subscript m ''login'') [alice] = map Inr [JStr ''alice'']
   \<and> subscript member_without_login ''login'' = Inl (KeyError ''login'')
   \<and> fst (add_members_to_team acme_platform (JInt 101) None
            (JList ([alice] @ member_without_login # [bob])) fresh) = Inl (KeyError ''login'')
   \<and> sent (snd (add_members_to_team acme_platform (JInt 101) None
            (JList ([alice] @ member_without_login # [bob])) fresh)) =
       [\<lparr>verb = PUT, url = ''https://api.github.com/teams/101/memberships/alice'',
         headers = [(''Authorization'', ''Bearer None'')], body = None\<rparr>]"
proof -
  have s1: "status_code (acme_platform (sent fresh) (list_teams_request (Some ''Ghost'') None))
      = 500"
    by (simp add: acme_platform_def list_teams_request_def)
  have s2: "status_code (acme_platform (sent fresh) (list_members_request (JInt 2) None)) = 500"
    by (simp add: acme_platform_def list_members_request_def str_int_def str_nat.simps
        digit_char_def)
  have n3: "subscript team_infra ''name'' = Inr (JStr ''infra'')"
    by (simp add: team_infra_def)
  have s3: "status_code (acme_platform (sent fresh)
                    (create_team_request (Some ''Ghost'') None team_infra)) = 500"
    by (simp add: acme_platform_def create_team_request_def team_infra_def team_core_def)
  have n4: "subscript team_unnamed ''name'' = Inl (KeyError ''name'')"
    by (simp add: team_unnamed_def)
  have n5: "subscript (JStr ''core'') ''name'' = Inl TypeError"
    by simp
  have t: "truthy (JInt 101)" by simp
  have l: "map (\<lambda>m. subscript m ''login'') [alice] = map Inr [JStr ''alice'']"
    by (simp add: alice_def)
  have k: "subscript member_without_login ''login'' = Inl (KeyError ''login'')"
    by (simp add: member_without_login_def)
  have g1: "get_teams acme_platform (Some ''Ghost'') None fresh =
       (Inr JNull, \<lparr>sent = [list_teams_request (Some ''Ghost'') None],
                    stdout = [''Failed to fetch teams from Ghost. Status code: 500'']\<rparr>)"
    using s1 by (simp add: get_teams_unfold fresh_def str_int_def str_nat.simps digit_char_def)
  have g2: "get_team_members acme_platform (JInt 2) None fresh =
       (Inr JNull, \<lparr>sent = [list_members_request (JInt 2) None],
                    stdout = [''Failed to fetch members for team 2. Status code: 500'']\<rparr>)"
    using s2 by (simp add: get_team_members_unfold fresh_def str_int_def str_nat.simps
        digit_char_def)
  have g3: "create_team acme_platform (Some ''Ghost'') None team_infra fresh =
       (Inr JNull, \<lparr>sent = [create_team_request (Some ''Ghost'') None team_infra],
                    stdout = [''Failed to create team infra in Ghost. Status code: 500'']\<rparr>)"
    using s3 n3 by (simp add: create_team_unfold fresh_def str_int_def str_nat.simps
        digit_char_def)
  have g4: "create_team acme_platform (Some ''Ghost'') None team_unnamed fresh =
       (Inl (KeyError ''name''),
        \<lparr>sent = [create_team_request (Some ''Ghost'') None team_unnamed], stdout = []\<rparr>)"
    using n4 by (simp add: create_team_unfold fresh_def)
  show ?thesis
    using s1 s2 n3 s3 n4 n5 t l k g1 g2 g3 g4
      failure_statuses_absent_missing_keys_raise
        [of acme_platform fresh "Some ''Ghost''" None "JInt 2" team_infra
            "JStr ''infra''" TypeError "[alice]" "[JStr ''alice'']" member_without_login
            "KeyError ''login''" "[bob]"]
      failure_statuses_absent_missing_keys_raise
        [of acme_platform fresh "Some ''Ghost''" None "JInt 101" team_unnamed
            "JStr ''core''" "KeyError ''name''" "[alice]" "[JStr ''alice'']"
            member_without_login "KeyError ''login''" "[bob]"]
      failure_statuses_absent_missing_keys_raise
        [of acme_platform fresh "Some ''Ghost''" None "JInt 101" "JStr ''core''"
            "JStr ''core''" TypeError "[alice]" "[JStr ''alice'']" member_without_login
            "KeyError ''login''" "[bob]"]
    by (simp add: add_member_request_def fresh_def str_int_def str_nat.simps digit_char_def)
qed

lemma transfer_teams_list:
  "status_code (srv (sent w) (list_teams_request s tok)) = 200 \<Longrightarrow>
   json (srv (sent w) (list_teams_request s tok)) = JList ts \<Longrightarrow>
   transfer_teams srv s d tok w =
     transfer_loop srv d tok ts (w\<lparr>sent := sent w @ [list_teams_request s tok]\<rparr>)"
  by (cases ts) (simp_all add: transfer_teams_def get_teams_unfold)

text \<open>
  C2, as claimed: for every list of teams that the listing returns, \<open>transfer_teams\<close>
  sends exactly one creation request per team. This fails when the run is cut short by
  an exception: below the listing returns two teams, the first without a name; its
  creation request is sent, \<open>create_team\<close> raises KeyError, and the second team is
  never created.
\<close>

theorem one_creation_per_team_counterexample:
  "json (by_method \<lparr>status_code = 200, json = JList [team_unnamed, team_infra]\<rparr>
           \<lparr>status_code = 201, json = JObj [(''id'', JInt 101)]\<rparr>
           \<lparr>status_code = 200, json = JObj []\<rparr>
           (sent fresh) (list_teams_request (Some ''Acme'') (Some ''t0ken'')))
     = JList [team_unnamed, team_infra]
   \<and> transfer_teams
        (by_method \<lparr>status_code = 200, json = JList [team_unnamed, team_infra]\<rparr>
           \<lparr>status_code = 201, json = JObj [(''id'', JInt 101)]\<rparr>
           \<lparr>status_code = 200, json = JObj []\<rparr>)
        (Some ''Acme'') (Some ''Zenith'') (Some ''t0ken'') fresh =
     (Inl (KeyError ''name''),
      \<lparr>sent = [list_teams_request (Some ''Acme'') (Some ''t0ken''),
               create_team_request (Some ''Zenith'') (Some ''t0ken'') team_unnamed],
       stdout = []\<rparr>)
   \<and> creation_calls [list_teams_request (Some ''Acme'') (Some ''t0ken''),
                     create_team_request (Some ''Zenith'') (Some ''t0ken'') team_unnamed]
     \<noteq> map (create_team_request (Some ''Zenith'') (Some ''t0ken'')) [team_unnamed, team_infra]"
  by (simp add: transfer_teams_def get_teams_unfold transfer_team_def create_team_unfold
      by_method_def list_teams_request_def create_team_request_def creation_calls_def
      team_unnamed_def team_infra_def fresh_def)

text \<open>
  C2, amended: for every list of teams that the listing returns, the creation requests
  of a run of \<open>transfer_teams\<close> are requests for the teams of the list, in the list's
  order, one per team and each with the source team object itself as its JSON body,
  for an initial part of the list; when the run returns without an exception they are
  the requests for the whole list.
\<close>

theorem one_creation_per_team:
  "status_code (srv (sent w) (list_teams_request source_org access_token)) = 200 \<Longrightarrow>
   json (srv (sent w) (list_teams_request source_org access_token)) = JList teams \<Longrightarrow>
   prefix
     (creation_calls (new_requests w
        (snd (transfer_teams srv source_org destination_org access_token w))))
     (map (create_team_request destination_org access_token) teams)
   \<and> (fst (transfer_teams srv source_org destination_org access_token w) = Inr () \<longrightarrow>
        creation_calls (new_requests w
          (snd (transfer_teams srv source_org destination_org access_token w))) =
        map (create_team_request destination_org access_token) teams)"
proof -
  assume ok: "status_code (srv (sent w) (list_teams_request source_org access_token)) = 200"
    and body: "json (srv (sent w) (list_teams_request source_org access_token)) = JList teams"
  let ?q = "list_teams_request source_org access_token"
  let ?w1 = "w\<lparr>sent := sent w @ [?q]\<rparr>"
  let ?run = "transfer_teams srv source_org destination_org access_token w"
  have run: "?run = transfer_loop srv destination_org access_token teams ?w1"
    using ok body by (rule transfer_teams_list)
  obtain rs where
    a: "sent (snd (transfer_loop srv destination_org access_token teams ?w1)) = sent ?w1 @ rs"
    and p: "prefix (creation_calls rs) (map (create_team_request destination_org access_token) teams)"
    and f: "fst (transfer_loop srv destination_org access_token teams ?w1) = Inr () \<longrightarrow>
              creation_calls rs = map (create_team_request destination_org access_token) teams"
    using transfer_loop_shape [of srv destination_org access_token teams ?w1] by blast
  have "sent (snd ?run) = sent w @ (?q # rs)"
    using run a by simp
  then have "new_requests w (snd ?run) = ?q # rs"
    by (rule new_requests_append)
  then have "creation_calls (new_requests w (snd ?run)) = creation_calls rs"
    by (simp add: creation_calls_def list_teams_request_def)
  then show ?thesis
    using p f run by simp
qed

theorem one_creation_per_team_witness:
  "status_code (acme_platform (sent fresh) (list_teams_request (Some ''Acme'') None)) = 200
   \<and> json (acme_platform (sent fresh) (list_teams_request (Some ''Acme'') None)) =
       JList [team_core, team_infra]
   \<and> fst (transfer_teams acme_platform (Some ''Acme'') (Some ''Zenith'') None fresh) = Inr ()
   \<and> creation_calls (new_requests fresh
        (snd (transfer_teams acme_platform (Some ''Acme'') (Some ''Zenith'') None fresh))) =
       [\<lparr>verb = POST, url = ''https://api.github.com/orgs/Zenith/teams'',
         headers = [(''Authorization'', ''Bearer None'')], body = Some team_core\<rparr>,
        \<lparr>verb = POST, url = ''https://api.github.com/orgs/Zenith/teams'',
         headers = [(''Authorization'', ''Bearer None'')], body = Some team_infra\<rparr>]"
proof -
  have ok: "status_code (acme_platform (sent fresh) (list_teams_request (Some ''Acme'') None)) = 200"
    by (simp add: acme_platform_def list_teams_request_def)
  have body: "json (acme_platform (sent fresh) (list_teams_request (Some ''Acme'') None)) =
       JList [team_core, team_infra]"
    by (simp add: acme_platform_def list_teams_request_def)
  have run: "fst (transfer_teams acme_platform (Some ''Acme'') (Some ''Zenith'') None fresh) = Inr ()"
    by (simp add: transfer_teams_def get_teams_unfold transfer_team_def create_team_unfold
        get_team_members_unfold add_members_to_team_def apiUrl_def auth_headers_def Let_def
        requests_put_def send_def print_def acme_platform_def list_teams_request_def
        create_team_request_def list_members_request_def team_core_def team_infra_def
        alice_def fresh_def str_int_def str_nat.simps digit_char_def)
  show ?thesis
    using ok body run one_creation_per_team [of acme_platform fresh "Some ''Acme''" None
        "[team_core, team_infra]" "Some ''Zenith''", OF ok body]
    by (simp add: create_team_request_def)
qed

text \<open>
  C1. In every iteration of the team loop, the creation request for the team is sent
  first. A member-addition request (PUT) follows in that iteration only when the
  creation was answered with status 201 and a body whose \<^verbatim>\<open>id\<close> is truthy. When
  \<open>create_team\<close> returns \<^verbatim>\<open>None\<close>, the creation request is the only request of the
  iteration: no member list is fetched and no member is added.
\<close>

theorem additions_only_after_creation:
  "\<exists>rs. sent (snd (transfer_team srv destination_org access_token team w)) =
           sent w @ create_team_request destination_org access_token team # rs
       \<and> (member_additions rs \<noteq> [] \<longrightarrow>
            status_code (srv (sent w) (create_team_request destination_org access_token team))
              = 201
            \<and> (\<exists>i. subscript
                     (json (srv (sent w) (create_team_request destination_org access_token team)))
                     ''id'' = Inr i \<and> truthy i))
       \<and> (fst (create_team srv destination_org access_token team w) = Inr JNull \<longrightarrow> rs = [])"
proof -
  let ?rq = "create_team_request destination_org access_token team"
  let ?r = "srv (sent w) ?rq"
  obtain rs where
    a: "sent (snd (transfer_team srv destination_org access_token team w)) = sent w @ ?rq # rs"
    and b: "(\<exists>r \<in> set rs. verb r = PUT) \<longrightarrow>
            status_code ?r = 201 \<and> (\<exists>i. subscript (json ?r) ''id'' = Inr i \<and> truthy i)"
    and c: "status_code ?r \<noteq> 201 \<or> \<not> truthy (json ?r) \<longrightarrow> rs = []"
    using transfer_team_shape [of srv destination_org access_token team w] by blast
  have absent: "status_code ?r \<noteq> 201 \<or> \<not> truthy (json ?r)"
    if "fst (create_team srv destination_org access_token team w) = Inr JNull"
    using that by (auto simp add: create_team_unfold split: sum.splits if_splits)
  have puts: "\<exists>r \<in> set rs. verb r = PUT" if "member_additions rs \<noteq> []"
    using that by (auto simp add: member_additions_def filter_empty_conv)
  show ?thesis
    using a b c absent puts by (intro exI [of _ rs]) blast
qed

theorem additions_only_after_creation_witness:
  "sent (snd (transfer_team acme_platform (Some ''Zenith'') None team_core fresh)) =
     [create_team_request (Some ''Zenith'') None team_core,
      list_members_request (JInt 1) None,
      add_member_request (JInt 101) None (JStr ''alice'')]
   \<and> status_code (acme_platform (sent fresh) (create_team_request (Some ''Zenith'') None team_core))
     = 201
   \<and> subscript (json (acme_platform (sent fresh)
                        (create_team_request (Some ''Zenith'') None team_core))) ''id''
     = Inr (JInt 101)
   \<and> fst (create_team acme_platform (Some ''Zenith'') None team_infra fresh) = Inr JNull
   \<and> sent (snd (transfer_team acme_platform (Some ''Zenith'') None team_infra fresh)) =
     [create_team_request (Some ''Zenith'') None team_infra]"
proof -
  have core: "sent (snd (transfer_team acme_platform (Some ''Zenith'') None team_core fresh)) =
     [create_team_request (Some ''Zenith'') None team_core,
      list_members_request (JInt 1) None,
      add_member_request (JInt 101) None (JStr ''alice'')]"
    by (simp add: transfer_team_def create_team_unfold get_team_members_unfold
        add_members_to_team_def apiUrl_def auth_headers_def Let_def requests_put_def send_def
        print_def acme_platform_def create_team_request_def list_members_request_def
        add_member_request_def team_core_def alice_def fresh_def str_int_def str_nat.simps
        digit_char_def)
  have infra: "fst (create_team acme_platform (Some ''Zenith'') None team_infra fresh) = Inr JNull"
    by (simp add: create_team_unfold acme_platform_def create_team_request_def team_infra_def
        team_core_def)
  have answer: "acme_platform (sent fresh) (create_team_request (Some ''Zenith'') None team_core)
      = \<lparr>status_code = 201, json = JObj [(''id'', JInt 101), (''name'', JStr ''core'')]\<rparr>"
    by (simp add: acme_platform_def create_team_request_def)
  have only: "sent (snd (transfer_team acme_platform (Some ''Zenith'') None team_infra fresh)) =
     [create_team_request (Some ''Zenith'') None team_infra]"
    using infra
      additions_only_after_creation [of acme_platform "Some ''Zenith''" None team_infra fresh]
    by (auto simp add: fresh_def)
  show ?thesis
    using core infra answer only
      additions_only_after_creation [of acme_platform "Some ''Zenith''" None team_core fresh]
    by simp
qed

text \<open>
  C10. When the member list fetched for a source team is empty, the iteration ends
  right there, exactly as when the fetch fails: \<open>add_members_to_team\<close> is not called,
  so the two requests of the iteration are the creation and the member listing, no PUT
  is sent and the guard's diagnostic is not printed.
\<close>

theorem empty_member_list_skipped:
  "create_team srv destination_org access_token team w = (Inr new_team_response, w1) \<Longrightarrow>
   truthy new_team_response \<Longrightarrow>
   subscript new_team_response ''id'' = Inr new_team_id \<Longrightarrow>
   subscript team ''id'' = Inr team_id \<Longrightarrow>
   get_team_members srv team_id access_token w1 = (Inr team_members, w2) \<Longrightarrow>
   team_members = JList [] \<or> team_members = JNull \<Longrightarrow>
   transfer_team srv destination_org access_token team w = (Inr (), w2)
   \<and> sent w2 = sent w @ [create_team_request destination_org access_token team,
                          list_members_request team_id access_token]
   \<and> member_additions (new_requests w w2) = []
   \<and> ''Team ID is not valid. Skipping adding members.'' \<notin> set (new_lines w w2)"
proof -
  assume ct: "create_team srv destination_org access_token team w = (Inr new_team_response, w1)"
    and tr: "truthy new_team_response"
    and nid: "subscript new_team_response ''id'' = Inr new_team_id"
    and tid: "subscript team ''id'' = Inr team_id"
    and gm: "get_team_members srv team_id access_token w1 = (Inr team_members, w2)"
    and none: "team_members = JList [] \<or> team_members = JNull"
  let ?rq = "create_team_request destination_org access_token team"
  let ?mq = "list_members_request team_id access_token"
  from none have falsy: "\<not> truthy team_members" by auto
  have run: "transfer_team srv destination_org access_token team w = (Inr (), w2)"
    using ct tr nid tid gm falsy by (simp add: transfer_team_def)
  obtain n where name: "subscript team ''name'' = Inr n"
    using ct by (cases "subscript team ''name''") (simp_all add: create_team_unfold)
  have created: "status_code (srv (sent w) ?rq) = 201"
    using ct tr name by (auto simp add: create_team_unfold split: if_splits)
  have w1: "sent w1 = sent w @ [?rq]"
    "stdout w1 = stdout w @ [''Team - '' @ py_str n @ '' created successfully in ''
                             @ str_opt destination_org]"
    using ct name created by (auto simp add: create_team_unfold)
  have s2: "sent w2 = sent w @ [?rq, ?mq]"
    using gm w1 by (auto simp add: get_team_members_unfold split: if_splits)
  have o2: "stdout w2 = stdout w @
      (if status_code (srv (sent w1) ?mq) = 200
       then [''Team - '' @ py_str n @ '' created successfully in '' @ str_opt destination_org]
       else [''Team - '' @ py_str n @ '' created successfully in '' @ str_opt destination_org,
             ''Failed to fetch members for team '' @ py_str team_id @ ''. Status code: ''
             @ str_int (status_code (srv (sent w1) ?mq))])"
    using gm w1 none by (auto simp add: get_team_members_unfold split: if_splits)
  have nr: "new_requests w w2 = [?rq, ?mq]"
    using s2 by (rule new_requests_append)
  have nl: "''Team ID is not valid. Skipping adding members.'' \<notin> set (new_lines w w2)"
    using new_lines_append [OF o2] by simp
  show ?thesis
    using run s2 nr nl
    by (simp add: member_additions_def create_team_request_def list_members_request_def)
qed

theorem empty_member_list_skipped_witness:
  "create_team (by_method \<lparr>status_code = 200, json = JList []\<rparr>
                  \<lparr>status_code = 201, json = JObj [(''id'', JInt 101)]\<rparr>
                  \<lparr>status_code = 200, json = JNull\<rparr>)
     (Some ''Zenith'') None team_core fresh =
     (Inr (JObj [(''id'', JInt 101)]),
      \<lparr>sent = [create_team_request (Some ''Zenith'') None team_core],
       stdout = [''Team - core created successfully in Zenith'']\<rparr>)
   \<and> truthy (JObj [(''id'', JInt 101)])
   \<and> subscript (JObj [(''id'', JInt 101)]) ''id'' = Inr (JInt 101)
   \<and> subscript team_core ''id'' = Inr (JInt 1)
   \<and> get_team_members (by_method \<lparr>status_code = 200, json = JList []\<rparr>
                  \<lparr>status_code = 201, json = JObj [(''id'', JInt 101)]\<rparr>
                  \<lparr>status_code = 200, json = JNull\<rparr>)
       (JInt 1) None
       \<lparr>sent = [create_team_request (Some ''Zenith'') None team_core],
        stdout = [''Team - core created successfully in Zenith'']\<rparr> =
     (Inr (JList []),
      \<lparr>sent = [create_team_request (Some ''Zenith'') None team_core,
               list_members_request (JInt 1) None],
       stdout = [''Team - core created successfully in Zenith'']\<rparr>)
   \<and> transfer_team (by_method \<lparr>status_code = 200, json = JList []\<rparr>
                  \<lparr>status_code = 201, json = JObj [(''id'', JInt 101)]\<rparr>
                  \<lparr>status_code = 200, json = JNull\<rparr>)
       (Some ''Zenith'') None team_core fresh =
     (Inr (),
      \<lparr>sent = [create_team_request (Some ''Zenith'') None team_core,
               list_members_request (JInt 1) None],
       stdout = [''Team - core created successfully in Zenith'']\<rparr>)"
proof -
  let ?P = "by_method \<lparr>status_code = 200, json = JList []\<rparr>
    \<lparr>status_code = 201, json = JObj [(''id'', JInt 101)]\<rparr> \<lparr>status_code = 200, json = JNull\<rparr>"
  let ?w1 = "\<lparr>sent = [create_team_request (Some ''Zenith'') None team_core],
              stdout = [''Team - core created successfully in Zenith'']\<rparr>"
  let ?w2 = "\<lparr>sent = [create_team_request (Some ''Zenith'') None team_core,
                      list_members_request (JInt 1) None],
              stdout = [''Team - core created successfully in Zenith'']\<rparr>"
  have ct: "create_team ?P (Some ''Zenith'') None team_core fresh =
      (Inr (JObj [(''id'', JInt 101)]), ?w1)"
    by (simp add: create_team_unfold by_method_def create_team_request_def team_core_def
        fresh_def)
  have tr: "truthy (JObj [(''id'', JInt 101)])" by simp
  have nid: "subscript (JObj [(''id'', JInt 101)]) ''id'' = Inr (JInt 101)" by simp
  have tid: "subscript team_core ''id'' = Inr (JInt 1)" by (simp add: team_core_def)
  have gm: "get_team_members ?P (JInt 1) None ?w1 = (Inr (JList []), ?w2)"
    by (simp add: get_team_members_unfold by_method_def list_members_request_def)
  have none: "JList [] = JList [] \<or> JList [] = JNull" by simp
  show ?thesis
    using ct tr nid tid gm empty_member_list_skipped [OF ct tr nid tid gm none]
    by simp
qed

text \<open>
  C8. When the token variable is unset or empty, the program prints its warning and
  goes on: the warning is the first line printed, and the listing request for the
  source organization is sent after it.
\<close>

theorem missing_token_warns_and_proceeds:
  "access_token = None \<or> access_token = Some [] \<Longrightarrow>
   \<exists>rs ls.
     stdout (snd (main srv access_token source_organization destination_organization w)) =
       stdout w @ (''Error: GitHub access token not found. ''
                   @ ''Please set GITHUB_ACCESS_TOKEN environmental variable.'') # ls
     \<and> sent (snd (main srv access_token source_organization destination_organization w)) =
       sent w @ list_teams_request source_organization access_token # rs"
proof -
  assume missing: "access_token = None \<or> access_token = Some []"
  let ?warning = "''Error: GitHub access token not found. ''
                  @ ''Please set GITHUB_ACCESS_TOKEN environmental variable.''"
  let ?w1 = "w\<lparr>stdout := stdout w @ [?warning]\<rparr>"
  have run: "main srv access_token source_organization destination_organization w =
      transfer_teams srv source_organization destination_organization access_token ?w1"
    using missing by (auto simp add: main_def print_def)
  obtain rs ls where
    a: "sent (snd (transfer_teams srv source_organization destination_organization
                     access_token ?w1)) =
        sent ?w1 @ list_teams_request source_organization access_token # rs"
    and b: "stdout (snd (transfer_teams srv source_organization destination_organization
                     access_token ?w1)) = stdout ?w1 @ ls"
    using transfer_teams_shape
      [of srv source_organization destination_organization access_token ?w1] by blast
  show ?thesis
    unfolding run using a b by (intro exI [of _ rs] exI [of _ ls]) simp
qed

text \<open>
  C9. With no access token (\<^verbatim>\<open>None\<close>), the run sends at least one request, and every
  request it sends carries the header \<^verbatim>\<open>Authorization: Bearer None\<close>.
\<close>

theorem absent_token_sent_as_bearer_none:
  "\<exists>rs. sent (snd (main srv None source_organization destination_organization w)) = sent w @ rs
       \<and> rs \<noteq> []
       \<and> (\<forall>r \<in> set rs. headers r = [(''Authorization'', ''Bearer None'')])"
proof -
  let ?warning = "''Error: GitHub access token not found. ''
                  @ ''Please set GITHUB_ACCESS_TOKEN environmental variable.''"
  let ?w1 = "w\<lparr>stdout := stdout w @ [?warning]\<rparr>"
  let ?q = "list_teams_request source_organization None"
  have run: "main srv None source_organization destination_organization w =
      transfer_teams srv source_organization destination_organization None ?w1"
    by (simp add: main_def print_def)
  obtain rs where
    a: "sent (snd (transfer_teams srv source_organization destination_organization None ?w1)) =
        sent ?w1 @ ?q # rs"
    and c: "\<forall>r \<in> set rs. headers r = [(''Authorization'', ''Bearer '' @ str_opt None)]"
    using transfer_teams_shape [of srv source_organization destination_organization None ?w1]
    by blast
  have "headers ?q = [(''Authorization'', ''Bearer None'')]"
    by (simp add: list_teams_request_def)
  then show ?thesis
    unfolding run using a c by (intro exI [of _ "?q # rs"]) simp
qed

text \<open>The end-to-end scenario, run without a token.\<close>

lemma acme_run:
  "main acme_platform None (Some ''Acme'') (Some ''Zenith'') fresh =
     (Inr (),
      \<lparr>sent =
         [\<lparr>verb = GET, url = ''https://api.github.com/orgs/Acme/teams'',
           headers = [(''Authorization'', ''Bearer None'')], body = None\<rparr>,
          \<lparr>verb = POST, url = ''https://api.github.com/orgs/Zenith/teams'',
           headers = [(''Authorization'', ''Bearer None'')], body = Some team_core\<rparr>,
          \<lparr>verb = GET, url = ''https://api.github.com/teams/1/members'',
           headers = [(''Authorization'', ''Bearer None'')], body = None\<rparr>,
          \<lparr>verb = PUT, url = ''https://api.github.com/teams/101/memberships/alice'',
           headers = [(''Authorization'', ''Bearer None'')], body = None\<rparr>,
          \<lparr>verb = POST, url = ''https://api.github.com/orgs/Zenith/teams'',
           headers = [(''Authorization'', ''Bearer None'')], body = Some team_infra\<rparr>],
       stdout =
         [''Error: GitHub access token not found. Please set GITHUB_ACCESS_TOKEN environmental variable.'',
          ''Team - core created successfully in Zenith'',
          ''Member - alice added successfully to team 101'',
          ''Failed to create team infra in Zenith. Status code: 500'']\<rparr>)"
  by (simp add: main_def transfer_teams_def get_teams_unfold transfer_team_def
      create_team_unfold get_team_members_unfold add_members_to_team_def apiUrl_def
      auth_headers_def Let_def requests_put_def send_def print_def acme_platform_def
      list_teams_request_def create_team_request_def list_members_request_def team_core_def
      team_infra_def alice_def fresh_def str_int_def str_nat.simps digit_char_def)

theorem missing_token_warns_and_proceeds_witness:
  "((None :: string option) = None \<or> (None :: string option) = Some [])
   \<and> hd (stdout (snd (main acme_platform None (Some ''Acme'') (Some ''Zenith'') fresh))) =
       ''Error: GitHub access token not found. Please set GITHUB_ACCESS_TOKEN environmental variable.''
   \<and> hd (sent (snd (main acme_platform None (Some ''Acme'') (Some ''Zenith'') fresh))) =
       list_teams_request (Some ''Acme'') None
   \<and> length (sent (snd (main acme_platform None (Some ''Acme'') (Some ''Zenith'') fresh))) = 5
   \<and> hd (sent (snd (main acme_platform (Some []) (Some ''Acme'') (Some ''Zenith'') fresh))) =
       \<lparr>verb = GET, url = ''https://api.github.com/orgs/Acme/teams'',
        headers = [(''Authorization'', ''Bearer '')], body = None\<rparr>"
proof -
  have h: "(None :: string option) = None \<or> (None :: string option) = Some []" by simp
  have h': "Some [] = (None :: string option) \<or> Some [] = (Some [] :: string option)" by simp
  show ?thesis
    using acme_run
      missing_token_warns_and_proceeds [OF h, of acme_platform "Some ''Acme''"
        "Some ''Zenith''" fresh]
      missing_token_warns_and_proceeds [OF h', of acme_platform "Some ''Acme''"
        "Some ''Zenith''" fresh]
    by (auto simp add: fresh_def list_teams_request_def)
qed

theorem absent_token_sent_as_bearer_none_witness:
  "sent (snd (main acme_platform None (Some ''Acme'') (Some ''Zenith'') fresh)) \<noteq> []
   \<and> map headers (sent (snd (main acme_platform None (Some ''Acme'') (Some ''Zenith'') fresh))) =
       [[(''Authorization'', ''Bearer None'')], [(''Authorization'', ''Bearer None'')],
        [(''Authorization'', ''Bearer None'')], [(''Authorization'', ''Bearer None'')],
        [(''Authorization'', ''Bearer None'')]]"
  using acme_run
    absent_token_sent_as_bearer_none [of acme_platform "Some ''Acme''" "Some ''Zenith''" fresh]
  by (auto simp add: fresh_def)

end
